theory Spec2Isabelle
  imports Main
begin

section \<open>The SignalFx exporter facade (exporter/signalfxexporter/exporter.go)\<close>

text \<open>
  The exporter composes collaborators whose code lives in other packages: the data-point
  and event clients, the dimension client, the host-metadata syncer, the HTTP and TLS
  configuration helpers. Their objects are Go pointers or opaque library values; the
  model stands for each by an identifier of type \<open>ref\<close>. Whatever these collaborators
  read or change (network, heap objects, goroutines they launch) is the \<open>world\<close>
  component of the state, of an arbitrary type \<open>'w\<close>; their behaviour is a parameter of
  the model (record \<open>deps\<close>), so that a theorem about the facade holds for any
  behaviour of theirs.
\<close>

type_synonym ref = nat

subsection \<open>Errors and panics\<close>

text \<open>
  A Go \<open>error\<close> value: \<open>errors.New(msg)\<close>, or \<open>fmt.Errorf("msg: %w", err)\<close> wrapping
  another error. The nil error is \<open>None\<close> of \<open>error option\<close>.
\<close>

datatype error = ErrorNew string | Errorf string error

text \<open>A run-time panic: calling a nil function value or dereferencing a nil pointer.\<close>

datatype panic = NilDereference

subsection \<open>Configuration\<close>

text \<open>
  \<open>confighttp.HTTPClientSettings\<close>, embedded in \<open>Config\<close>. The fields are the ones this
  file reads or writes; the record is extensible, so every other field lives in the
  \<open>more\<close> part and the theorems cover it. \<open>Headers\<close> is a Go map, \<open>None\<close> when nil:
  its entries are listed in the order a \<open>range\<close> loop happens to visit them, which Go
  leaves unspecified (keys of a map are distinct). The \<open>*int\<close> and \<open>*time.Duration\<close>
  fields are \<open>None\<close> when nil and hold the pointed-to value otherwise; durations count
  nanoseconds.
\<close>

record HTTPClientSettings =
  Headers :: "(string \<times> string) list option"
  TLSSetting :: ref
  MaxIdleConns :: "int option"
  MaxIdleConnsPerHost :: "int option"
  IdleConnTimeout :: "int option"

record 'h Config =
  HTTPClientSettings :: "'h HTTPClientSettings_scheme"
  AccessToken :: string
  IngestTLSSettings :: ref
  APITLSSettings :: ref
  MaxConnections :: int
  SyncHostMetadata :: bool
  AccessTokenPassthrough :: bool
  ExcludeMetrics :: "ref list"
  IncludeMetrics :: "ref list"
  NonAlphanumericDimensionChars :: string

record exporterOptions =
  ingestURL :: ref
  ingestTLSSettings :: ref
  apiURL :: ref
  apiTLSSettings :: ref
  httpTimeout :: int
  token :: string
  logDataPoints :: bool
  logDimUpdate :: bool
  metricTranslator :: ref

subsection \<open>The clients built by \<open>start\<close> and \<open>startLogs\<close>\<close>

text \<open>
  The struct literals of \<open>start\<close> and \<open>startLogs\<close>. The \<open>zippers\<close> field is a freshly
  made, empty \<open>sync.Pool\<close> (\<open>newGzipPool\<close>) and carries no data of its own.
\<close>

record sfxClientBase =
  base_ingestURL :: ref
  base_headers :: "string \<rightharpoonup> string"
  base_client :: ref

record sfxDPClient =
  dp_sfxClientBase :: sfxClientBase
  dp_logDataPoints :: bool
  dp_logger :: ref
  dp_accessTokenPassthrough :: bool
  dp_converter :: "ref option"

record sfxEventClient =
  ev_sfxClientBase :: sfxClientBase
  ev_logger :: ref
  ev_accessTokenPassthrough :: bool

record DimensionClientOptions =
  Token :: string
  APIURL :: ref
  APITLSConfig :: ref
  LogUpdates :: bool
  Logger :: ref
  SendDelay :: int
  PropertiesMaxBuffered :: int
  MetricsConverter :: ref

subsection \<open>State: the world of the collaborators and the calls made to them\<close>

text \<open>
  Every call the exporter makes to a collaborator with an effect is recorded, in order,
  in \<open>calls\<close>. The theorems about what is invoked, and when, read this list.
\<close>

datatype ('md, 'ld, 'h) call =
    CallToClient "'h HTTPClientSettings_scheme" ref
  | CallLoadTLSConfig ref
  | CallNewDimensionClient DimensionClientOptions
  | CallDimensionClientStart ref
  | CallNewSyncer ref
  | CallPushMetricsData 'md
  | CallSync ref 'md
  | CallPushLogsData 'ld
  | CallPushMetadata "ref list"

record ('md, 'ld, 'w, 'h) state =
  world :: 'w
  calls :: "('md, 'ld, 'h) call list"

text \<open>
  The collaborators. \<open>getOptionsFromConfig\<close> validates the configuration and derives
  the options; it is taken to read the configuration only.
\<close>

record ('md, 'ld, 'w, 'h, 'c) deps =
  getOptionsFromConfig :: "('h, 'c) Config_scheme \<Rightarrow> error + exporterOptions"
  CreateSampledLogger :: "ref \<Rightarrow> ref"
  NewMetricsConverter :: "ref \<Rightarrow> ref \<Rightarrow> ref list \<Rightarrow> ref list \<Rightarrow> string \<Rightarrow> error + ref"
  ToClient :: "'h HTTPClientSettings_scheme \<Rightarrow> ref \<Rightarrow> ref \<Rightarrow> 'w \<Rightarrow> (error + ref) \<times> 'w"
  LoadTLSConfig :: "ref \<Rightarrow> 'w \<Rightarrow> (error + ref) \<times> 'w"
  NewDimensionClient :: "DimensionClientOptions \<Rightarrow> 'w \<Rightarrow> ref \<times> 'w"
  DimensionClientStart :: "ref \<Rightarrow> 'w \<Rightarrow> 'w"
  DimensionClientPushMetadata :: "ref \<Rightarrow> ref list \<Rightarrow> 'w \<Rightarrow> error option \<times> 'w"
  NewSyncer :: "ref \<Rightarrow> ref \<Rightarrow> 'w \<Rightarrow> ref \<times> 'w"
  Sync :: "ref \<Rightarrow> 'md \<Rightarrow> 'w \<Rightarrow> 'w"
  dpPushMetricsData :: "sfxDPClient \<Rightarrow> ref \<Rightarrow> 'md \<Rightarrow> 'w \<Rightarrow> (int \<times> error option) \<times> 'w"
  eventPushLogsData :: "sfxEventClient \<Rightarrow> ref \<Rightarrow> 'ld \<Rightarrow> 'w \<Rightarrow> (int \<times> error option) \<times> 'w"

subsection \<open>The exporter\<close>

text \<open>
  \<open>signalfxExporter\<close>. The three push fields are Go function values, nil (\<open>None\<close>) until
  \<open>start\<close> or \<open>startLogs\<close> binds them; \<open>hostMetadataSyncer\<close> and \<open>converter\<close> are
  pointers. \<open>config\<close> is a pointer the constructors have checked to be non-nil; the
  record holds the configuration it points to, and a write through the pointer is an
  update of this field.
\<close>

record ('md, 'ld, 'w, 'h, 'c) signalfxExporter =
  config :: "('h, 'c) Config_scheme"
  logger :: ref
  telemetrySettings :: ref
  pushMetricsData :: "(ref \<Rightarrow> 'md \<Rightarrow> 'w \<Rightarrow> (int \<times> error option) \<times> 'w) option"
  pushMetadata :: "(ref list \<Rightarrow> 'w \<Rightarrow> error option \<times> 'w) option"
  pushLogsData :: "(ref \<Rightarrow> 'ld \<Rightarrow> 'w \<Rightarrow> (int \<times> error option) \<times> 'w) option"
  hostMetadataSyncer :: "ref option"
  converter :: "ref option"

text \<open>\<open>exporter.CreateSettings\<close>: the logger and the telemetry settings.\<close>

record CreateSettings =
  cs_Logger :: ref
  cs_TelemetrySettings :: ref

definition newSignalFxExporter ::
  "('md, 'ld, 'w, 'h, 'c) deps \<Rightarrow> ('h, 'c) Config_scheme option \<Rightarrow> CreateSettings
    \<Rightarrow> error + ('md, 'ld, 'w, 'h, 'c) signalfxExporter" where
  "newSignalFxExporter d cfgp createSettings =
    (case cfgp of
       None \<Rightarrow> Inl (ErrorNew ''nil config'')
     | Some cfg \<Rightarrow>
        (case getOptionsFromConfig d cfg of
           Inl err \<Rightarrow> Inl err
         | Inr options \<Rightarrow>
            (let sampledLogger = CreateSampledLogger d (cs_Logger createSettings) in
             case NewMetricsConverter d sampledLogger (metricTranslator options)
                    (ExcludeMetrics cfg) (IncludeMetrics cfg)
                    (NonAlphanumericDimensionChars cfg) of
               Inl err \<Rightarrow> Inl (Errorf ''failed to create metric converter'' err)
             | Inr conv \<Rightarrow>
                Inr \<lparr>config = cfg,
                     logger = cs_Logger createSettings,
                     telemetrySettings = cs_TelemetrySettings createSettings,
                     pushMetricsData = None,
                     pushMetadata = None,
                     pushLogsData = None,
                     hostMetadataSyncer = None,
                     converter = Some conv\<rparr>)))"

definition newEventExporter ::
  "('md, 'ld, 'w, 'h, 'c) deps \<Rightarrow> ('h, 'c) Config_scheme option \<Rightarrow> CreateSettings
    \<Rightarrow> error + ('md, 'ld, 'w, 'h, 'c) signalfxExporter" where
  "newEventExporter d cfgp createSettings =
    (case cfgp of
       None \<Rightarrow> Inl (ErrorNew ''nil config'')
     | Some cfg \<Rightarrow>
        (case getOptionsFromConfig d cfg of
           Inl err \<Rightarrow> Inl (Errorf ''failed to process config'' err)
         | Inr _ \<Rightarrow>
            Inr \<lparr>config = cfg,
                 logger = cs_Logger createSettings,
                 telemetrySettings = cs_TelemetrySettings createSettings,
                 pushMetricsData = None,
                 pushMetadata = None,
                 pushLogsData = None,
                 hostMetadataSyncer = None,
                 converter = None\<rparr>))"

subsection \<open>\<open>buildHeaders\<close>\<close>

text \<open>
  The \<open>range\<close> loop over the configured headers: each entry is stored into the header
  map, in the order the entries are visited.
\<close>

fun rangeHeaders :: "(string \<times> string) list \<Rightarrow> (string \<rightharpoonup> string) \<Rightarrow> (string \<rightharpoonup> string)" where
  "rangeHeaders [] headers = headers"
| "rangeHeaders ((k, v) # kvs) headers = rangeHeaders kvs (headers(k \<mapsto> v))"

text \<open>
  \<open>buildHeaders\<close> returns the header map and, since it writes through its pointer
  argument, the configuration as it is afterwards. The name of the access-token header
  is the constant \<open>splunk.SFxAccessTokenHeader\<close> of another package: the parameter
  \<open>accessTokenHeader\<close>.
\<close>

definition buildHeaders ::
  "string \<Rightarrow> ('h, 'c) Config_scheme \<Rightarrow> (string \<rightharpoonup> string) \<times> ('h, 'c) Config_scheme" where
  "buildHeaders accessTokenHeader cfg =
    (let headers = [''Connection'' \<mapsto> ''keep-alive'',
                    ''Content-Type'' \<mapsto> ''application/x-protobuf'',
                    ''User-Agent'' \<mapsto> ''OpenTelemetry-Collector SignalFx Exporter/v0.0.1''];
         headers = (if AccessToken cfg \<noteq> ''''
                    then headers(accessTokenHeader \<mapsto> AccessToken cfg)
                    else headers);
         headers = (case Headers (HTTPClientSettings cfg) of
                      None \<Rightarrow> headers
                    | Some kvs \<Rightarrow> rangeHeaders kvs headers);
         cfg = cfg\<lparr>HTTPClientSettings := (HTTPClientSettings cfg)\<lparr>Headers := None\<rparr>\<rparr>
     in (headers, cfg))"

subsection \<open>\<open>createClient\<close>\<close>

definition Second :: int where
  "Second = 1000000000"

definition createClient ::
  "('md, 'ld, 'w, 'h, 'c) deps \<Rightarrow> ('md, 'ld, 'w, 'h, 'c) signalfxExporter \<Rightarrow> ref
    \<Rightarrow> ('md, 'ld, 'w, 'h) state
    \<Rightarrow> (error + ref) \<times> ('md, 'ld, 'w, 'h, 'c) signalfxExporter \<times> ('md, 'ld, 'w, 'h) state" where
  "createClient d se host s =
    (let cfg = config se;
         hcs = (HTTPClientSettings cfg)\<lparr>TLSSetting := IngestTLSSettings cfg\<rparr>;
         hcs = (if MaxIdleConns hcs = None
                then hcs\<lparr>MaxIdleConns := Some (MaxConnections cfg)\<rparr> else hcs);
         hcs = (if MaxIdleConnsPerHost hcs = None
                then hcs\<lparr>MaxIdleConnsPerHost := Some (MaxConnections cfg)\<rparr> else hcs);
         hcs = (if IdleConnTimeout hcs = None
                then hcs\<lparr>IdleConnTimeout := Some (30 * Second)\<rparr> else hcs);
         se = se\<lparr>config := cfg\<lparr>HTTPClientSettings := hcs\<rparr>\<rparr>;
         (r, w) = ToClient d hcs host (telemetrySettings se) (world s)
     in (r, se, \<lparr>world = w, calls = calls s @ [CallToClient hcs host]\<rparr>))"

subsection \<open>\<open>start\<close> and \<open>startLogs\<close>\<close>

text \<open>
  \<open>start\<close> returns its error (nil is \<open>None\<close>) with the exporter and the state as they
  are when it returns; it panics when \<open>*se.converter\<close> dereferences a nil pointer.
\<close>

definition start ::
  "string \<Rightarrow> ('md, 'ld, 'w, 'h, 'c) deps \<Rightarrow> ('md, 'ld, 'w, 'h, 'c) signalfxExporter \<Rightarrow> ref
    \<Rightarrow> ('md, 'ld, 'w, 'h) state
    \<Rightarrow> panic + (error option \<times> ('md, 'ld, 'w, 'h, 'c) signalfxExporter \<times> ('md, 'ld, 'w, 'h) state)" where
  "start accessTokenHeader d se host s =
    (case getOptionsFromConfig d (config se) of
       Inl err \<Rightarrow> Inr (Some err, se, s)
     | Inr options \<Rightarrow>
        (let (headers, cfg) = buildHeaders accessTokenHeader (config se);
             se = se\<lparr>config := cfg\<rparr>;
             (client, se, s) = createClient d se host s
         in case client of
              Inl err \<Rightarrow> Inr (Some err, se, s)
            | Inr client \<Rightarrow>
               (let dpClient = \<lparr>dp_sfxClientBase = \<lparr>base_ingestURL = ingestURL options,
                                                     base_headers = headers,
                                                     base_client = client\<rparr>,
                                 dp_logDataPoints = logDataPoints options,
                                 dp_logger = logger se,
                                 dp_accessTokenPassthrough = AccessTokenPassthrough (config se),
                                 dp_converter = converter se\<rparr>;
                    (apiTLSCfg, w) = LoadTLSConfig d (APITLSSettings (config se)) (world s);
                    s = \<lparr>world = w,
                         calls = calls s @ [CallLoadTLSConfig (APITLSSettings (config se))]\<rparr>
                in case apiTLSCfg of
                     Inl err \<Rightarrow> Inr (Some (Errorf ''could not load API TLS config'' err), se, s)
                   | Inr apiTLSCfg \<Rightarrow>
                      (case converter se of
                         None \<Rightarrow> Inl NilDereference
                       | Some conv \<Rightarrow>
                          (let opts = \<lparr>Token = token options,
                                       APIURL = apiURL options,
                                       APITLSConfig = apiTLSCfg,
                                       LogUpdates = logDimUpdate options,
                                       Logger = logger se,
                                       SendDelay = 10,
                                       PropertiesMaxBuffered = 10000,
                                       MetricsConverter = conv\<rparr>;
                               (dimClient, w) = NewDimensionClient d opts (world s);
                               s = \<lparr>world = w, calls = calls s @ [CallNewDimensionClient opts]\<rparr>;
                               s = \<lparr>world = DimensionClientStart d dimClient (world s),
                                    calls = calls s @ [CallDimensionClientStart dimClient]\<rparr>;
                               (hms, s) =
                                 (if SyncHostMetadata (config se)
                                  then (let (syncer, w) = NewSyncer d (logger se) dimClient (world s)
                                        in (Some syncer,
                                            \<lparr>world = w, calls = calls s @ [CallNewSyncer dimClient]\<rparr>))
                                  else (None, s));
                               se = se\<lparr>pushMetricsData := Some (dpPushMetricsData d dpClient),
                                       pushMetadata := Some (DimensionClientPushMetadata d dimClient),
                                       hostMetadataSyncer := hms\<rparr>
                           in Inr (None, se, s))))))"

definition startLogs ::
  "string \<Rightarrow> ('md, 'ld, 'w, 'h, 'c) deps \<Rightarrow> ('md, 'ld, 'w, 'h, 'c) signalfxExporter \<Rightarrow> ref
    \<Rightarrow> ('md, 'ld, 'w, 'h) state
    \<Rightarrow> error option \<times> ('md, 'ld, 'w, 'h, 'c) signalfxExporter \<times> ('md, 'ld, 'w, 'h) state" where
  "startLogs accessTokenHeader d se host s =
    (case getOptionsFromConfig d (config se) of
       Inl err \<Rightarrow> (Some (Errorf ''failed to process config'' err), se, s)
     | Inr options \<Rightarrow>
        (let (headers, cfg) = buildHeaders accessTokenHeader (config se);
             se = se\<lparr>config := cfg\<rparr>;
             (client, se, s) = createClient d se host s
         in case client of
              Inl err \<Rightarrow> (Some err, se, s)
            | Inr client \<Rightarrow>
               (let eventClient = \<lparr>ev_sfxClientBase = \<lparr>base_ingestURL = ingestURL options,
                                                        base_headers = headers,
                                                        base_client = client\<rparr>,
                                    ev_logger = logger se,
                                    ev_accessTokenPassthrough = AccessTokenPassthrough (config se)\<rparr>;
                    se = se\<lparr>pushLogsData := Some (eventPushLogsData d eventClient)\<rparr>
                in (None, se, s))))"

subsection \<open>\<open>pushMetrics\<close> and \<open>pushLogs\<close>\<close>

text \<open>
  Both return the error of the inner push (nil is \<open>None\<close>) and the state afterwards; the
  first component of what the inner push returns, the dropped count, is bound to \<open>_\<close> in
  the source. Calling a nil function value, before \<open>start\<close> has bound it, panics.
\<close>

definition pushMetrics ::
  "('md, 'ld, 'w, 'h, 'c) deps \<Rightarrow> ('md, 'ld, 'w, 'h, 'c) signalfxExporter \<Rightarrow> ref \<Rightarrow> 'md
    \<Rightarrow> ('md, 'ld, 'w, 'h) state \<Rightarrow> panic + (error option \<times> ('md, 'ld, 'w, 'h) state)" where
  "pushMetrics d se ctx md s =
    (case pushMetricsData se of
       None \<Rightarrow> Inl NilDereference
     | Some push \<Rightarrow>
        (let ((_, err), w) = push ctx md (world s);
             s = \<lparr>world = w, calls = calls s @ [CallPushMetricsData md]\<rparr>
         in if err = None \<and> hostMetadataSyncer se \<noteq> None
            then Inr (err, \<lparr>world = Sync d (the (hostMetadataSyncer se)) md (world s),
                            calls = calls s @ [CallSync (the (hostMetadataSyncer se)) md]\<rparr>)
            else Inr (err, s)))"

definition pushLogs ::
  "('md, 'ld, 'w, 'h, 'c) signalfxExporter \<Rightarrow> ref \<Rightarrow> 'ld
    \<Rightarrow> ('md, 'ld, 'w, 'h) state \<Rightarrow> panic + (error option \<times> ('md, 'ld, 'w, 'h) state)" where
  "pushLogs se ctx ld s =
    (case pushLogsData se of
       None \<Rightarrow> Inl NilDereference
     | Some push \<Rightarrow>
        (let ((_, err), w) = push ctx ld (world s);
             s = \<lparr>world = w, calls = calls s @ [CallPushLogsData ld]\<rparr>
         in Inr (err, s)))"

subsection \<open>\<open>ConsumeMetadata\<close>\<close>



subsection \<open>Reading the calls\<close>

text \<open>The calls made between an earlier state and a later one.\<close>

definition callsSince ::
  "('md, 'ld, 'w, 'h) state \<Rightarrow> ('md, 'ld, 'w, 'h) state \<Rightarrow> ('md, 'ld, 'h) call list" where
  "callsSince s s' = drop (length (calls s)) (calls s')"

text \<open>The calls a run of \<open>start\<close> makes; a run that panics hands no state back.\<close>

definition startCalls ::
  "string \<Rightarrow> ('md, 'ld, 'w, 'h, 'c) deps \<Rightarrow> ('md, 'ld, 'w, 'h, 'c) signalfxExporter \<Rightarrow> ref
    \<Rightarrow> ('md, 'ld, 'w, 'h) state \<Rightarrow> ('md, 'ld, 'h) call list" where
  "startCalls accessTokenHeader d se host s =
    (case start accessTokenHeader d se host s of
       Inl _ \<Rightarrow> []
     | Inr (_, _, s') \<Rightarrow> callsSince s s')"

text \<open>The calls a run of \<open>startLogs\<close> makes.\<close>

definition startLogsCalls ::
  "string \<Rightarrow> ('md, 'ld, 'w, 'h, 'c) deps \<Rightarrow> ('md, 'ld, 'w, 'h, 'c) signalfxExporter \<Rightarrow> ref
    \<Rightarrow> ('md, 'ld, 'w, 'h) state \<Rightarrow> ('md, 'ld, 'h) call list" where
  "startLogsCalls accessTokenHeader d se host s =
    (case startLogs accessTokenHeader d se host s of (_, _, s') \<Rightarrow> callsSince s s')"


text \<open>The entries of the configured header map; a nil map has none.\<close>

definition customHeaders :: "('h, 'c) Config_scheme \<Rightarrow> (string \<times> string) list" where
  "customHeaders cfg = (case Headers (HTTPClientSettings cfg) of None \<Rightarrow> [] | Some kvs \<Rightarrow> kvs)"

subsection \<open>Concrete configurations and collaborators\<close>

text \<open>
  Two configurations that differ in every field, the options derived from each, and
  simple collaborators: the world is a counter, a push adds one to it, a host-metadata
  sync adds a hundred.
\<close>

definition ex_config :: "(unit, unit) Config_scheme" where
  "ex_config =
    \<lparr>HTTPClientSettings =
       \<lparr>Headers = Some [(''X-Custom'', ''1''), (''User-Agent'', ''mine'')],
        TLSSetting = 0, MaxIdleConns = None, MaxIdleConnsPerHost = Some 5,
        IdleConnTimeout = None\<rparr>,
     AccessToken = ''secret'', IngestTLSSettings = 1, APITLSSettings = 2,
     MaxConnections = 20, SyncHostMetadata = False, AccessTokenPassthrough = True,
     ExcludeMetrics = [], IncludeMetrics = [], NonAlphanumericDimensionChars = ''_-.''\<rparr>"

definition ex_config_sync :: "(unit, unit) Config_scheme" where
  "ex_config_sync =
    \<lparr>HTTPClientSettings =
       \<lparr>Headers = None,
        TLSSetting = 3, MaxIdleConns = Some 7, MaxIdleConnsPerHost = None,
        IdleConnTimeout = Some 5\<rparr>,
     AccessToken = '''', IngestTLSSettings = 4, APITLSSettings = 5,
     MaxConnections = 100, SyncHostMetadata = True, AccessTokenPassthrough = False,
     ExcludeMetrics = [6], IncludeMetrics = [7], NonAlphanumericDimensionChars = ''_''\<rparr>"

definition ex_options :: "(unit, unit) Config_scheme \<Rightarrow> exporterOptions" where
  "ex_options cfg =
    \<lparr>ingestURL = IngestTLSSettings cfg + 20, ingestTLSSettings = IngestTLSSettings cfg,
     apiURL = APITLSSettings cfg + 20, apiTLSSettings = APITLSSettings cfg,
     httpTimeout = MaxConnections cfg * 1000000000, token = AccessToken cfg,
     logDataPoints = AccessTokenPassthrough cfg, logDimUpdate = SyncHostMetadata cfg,
     metricTranslator = 30\<rparr>"

definition ex_push :: "int \<Rightarrow> error option \<Rightarrow> ref \<Rightarrow> 'b \<Rightarrow> nat \<Rightarrow> (int \<times> error option) \<times> nat" where
  "ex_push dropped err ctx batch w = ((dropped, err), Suc w)"

definition ex_deps :: "(nat list, string list, nat, unit, unit) deps" where
  "ex_deps =
    \<lparr>getOptionsFromConfig = (\<lambda>cfg. Inr (ex_options cfg)),
     CreateSampledLogger = (\<lambda>l. l),
     NewMetricsConverter = (\<lambda>l tr ex inc chars. Inr 40),
     ToClient = (\<lambda>hcs host ts w. (Inr 41, w)),
     LoadTLSConfig = (\<lambda>tls w. (Inr 42, w)),
     NewDimensionClient = (\<lambda>opts w. (43, w)),
     DimensionClientStart = (\<lambda>dim w. w),
     DimensionClientPushMetadata = (\<lambda>dim ms w. (None, w)),
     NewSyncer = (\<lambda>l dim w. (44, w)),
     Sync = (\<lambda>syncer md w. w + 100),
     dpPushMetricsData = (\<lambda>dp. ex_push 0 None),
     eventPushLogsData = (\<lambda>ev. ex_push 0 None)\<rparr>"



text \<open>The exporter \<open>newSignalFxExporter\<close> returns for a configuration, with these collaborators.\<close>

definition ex_exporter ::
  "(unit, unit) Config_scheme \<Rightarrow> (nat list, string list, nat, unit, unit) signalfxExporter" where
  "ex_exporter cfg =
    \<lparr>config = cfg, logger = 50, telemetrySettings = 51,
     pushMetricsData = None, pushMetadata = None, pushLogsData = None,
     hostMetadataSyncer = None, converter = Some 40\<rparr>"

definition ex_state :: "(nat list, string list, nat, unit) state" where
  "ex_state = \<lparr>world = 0, calls = []\<rparr>"

section \<open>The Metadata Update Coordinator\<close>

text \<open>
  The coordinator is the dimension client of the package \<open>internal/dimensions\<close>, which
  \<open>start\<close> constructs and starts; its code is not part of \<open>exporter.go\<close>. The
  definitions of this section follow the specification of the coordinator, one
  operation at a time, as atomic steps on its state.
\<close>

text \<open>
  Modelled from the spec: the type \<open>PropertyUpdate\<close> of the dimension client, "resourceKey,
  properties: mapping(name to value), tags: set(string), updateKind in {Upsert, TagOnly}".
\<close>

datatype updateKind = Upsert | TagOnly

record PropertyUpdate =
  resourceKey :: string
  properties :: "string \<rightharpoonup> string"
  tags :: "string set"
  updateKind :: updateKind

text \<open>
  Modelled from the spec: the coalescing of two updates of one resource key, which the
  dimension client performs, "later values win per field; tag sets are unioned".
\<close>

definition coalesce :: "PropertyUpdate \<Rightarrow> PropertyUpdate \<Rightarrow> PropertyUpdate" where
  "coalesce old new =
    \<lparr>resourceKey = resourceKey old,
     properties = properties old ++ properties new,
     tags = tags old \<union> tags new,
     updateKind = updateKind new\<rparr>"

text \<open>
  Modelled from the spec: the state of the dimension client, "pending: bounded
  mapping(resourceKey to PropertyUpdate), capacity, flushIntervalMs", with the counter
  of rejected updates, whether the flush loop runs, whether the coordinator has been
  stopped, the batches handed to the backend call so far, and the number of those
  calls that failed. The pending mapping is a list of entries with distinct keys.
\<close>

record Coordinator =
  pending :: "(string \<times> PropertyUpdate) list"
  capacity :: nat
  flushIntervalMs :: nat
  rejectedUpdates :: nat
  running :: bool
  stopped :: bool
  flushed :: "PropertyUpdate list list"
  failedFlushes :: nat

text \<open>
  Modelled from the spec: the constructor of the dimension client, with nothing pending
  and the flush loop not yet launched.
\<close>

definition newCoordinator :: "nat \<Rightarrow> nat \<Rightarrow> Coordinator" where
  "newCoordinator cap interval =
    \<lparr>pending = [], capacity = cap, flushIntervalMs = interval, rejectedUpdates = 0,
     running = False, stopped = False, flushed = [], failedFlushes = 0\<rparr>"

text \<open>
  Modelled from the spec: the insertion of an update into the pending mapping of the
  dimension client, "coalesces into pending by resourceKey".
\<close>

fun coalesceInto ::
  "PropertyUpdate \<Rightarrow> (string \<times> PropertyUpdate) list \<Rightarrow> (string \<times> PropertyUpdate) list" where
  "coalesceInto u [] = [(resourceKey u, u)]"
| "coalesceInto u ((k, p) # ps) =
     (if k = resourceKey u then (k, coalesce p u) # ps else (k, p) # coalesceInto u ps)"

text \<open>
  Modelled from the spec: \<open>enqueue\<close> of the dimension client, "returns false (and
  increments a rejected-update counter) if at capacity and the key is new". Enqueueing
  after stop is the no-op the specification allows, and returns false.
\<close>

definition enqueue :: "Coordinator \<Rightarrow> PropertyUpdate \<Rightarrow> bool \<times> Coordinator" where
  "enqueue c u =
    (if stopped c then (False, c)
     else if resourceKey u \<notin> set (map fst (pending c)) \<and> capacity c \<le> length (pending c)
          then (False, c\<lparr>rejectedUpdates := Suc (rejectedUpdates c)\<rparr>)
          else (True, c\<lparr>pending := coalesceInto u (pending c)\<rparr>))"

text \<open>
  Modelled from the spec: one flush of the dimension client, "atomically drains the
  current pending map into a flush batch, clears pending, and sends the batch"; "if the
  flush call fails, the batch is dropped". The argument says whether the call succeeds.
\<close>

definition flush :: "bool \<Rightarrow> Coordinator \<Rightarrow> Coordinator" where
  "flush ok c =
    c\<lparr>pending := [],
      flushed := flushed c @ [map snd (pending c)],
      failedFlushes := (if ok then failedFlushes c else Suc (failedFlushes c))\<rparr>"

text \<open>
  Modelled from the spec: one tick of the background flush loop of the dimension
  client, which flushes while the loop runs.
\<close>

definition flushTick :: "bool \<Rightarrow> Coordinator \<Rightarrow> Coordinator" where
  "flushTick ok c = (if running c then flush ok c else c)"

text \<open>
  Modelled from the spec: \<open>start()\<close> of the dimension client, "launches the background
  loop"; starting twice, or after stop, is the no-op the specification allows.
\<close>

definition coordinatorStart :: "Coordinator \<Rightarrow> Coordinator" where
  "coordinatorStart c = (if running c \<or> stopped c then c else c\<lparr>running := True\<rparr>)"

text \<open>
  Modelled from the spec: \<open>stop()\<close> of the dimension client, "terminates the loop after
  attempting one final best-effort flush of whatever remains pending".
\<close>

definition coordinatorStop :: "bool \<Rightarrow> Coordinator \<Rightarrow> Coordinator" where
  "coordinatorStop ok c =
    (if stopped c then c else (flush ok c)\<lparr>running := False, stopped := True\<rparr>)"

text \<open>
  Modelled from the spec: the operations of the dimension client as the steps of a
  run, each one atomic (the specification makes enqueue and drain mutually exclusive).
\<close>

datatype coordinatorOp = OpStart | OpStop bool | OpEnqueue PropertyUpdate | OpTick bool

fun coordinatorStep :: "Coordinator \<Rightarrow> coordinatorOp \<Rightarrow> Coordinator" where
  "coordinatorStep c OpStart = coordinatorStart c"
| "coordinatorStep c (OpStop ok) = coordinatorStop ok c"
| "coordinatorStep c (OpEnqueue u) = snd (enqueue c u)"
| "coordinatorStep c (OpTick ok) = flushTick ok c"

definition runOps :: "Coordinator \<Rightarrow> coordinatorOp list \<Rightarrow> Coordinator" where
  "runOps c ops = foldl coordinatorStep c ops"

text \<open>The bound on the pending mapping, and that it is a mapping: its keys are distinct.\<close>

definition pendingBounded :: "Coordinator \<Rightarrow> bool" where
  "pendingBounded c \<longleftrightarrow> length (pending c) \<le> capacity c \<and> distinct (map fst (pending c))"

text \<open>An update of one property, for the concrete runs.\<close>

definition ex_update :: "string \<Rightarrow> string \<Rightarrow> PropertyUpdate" where
  "ex_update key v = \<lparr>resourceKey = key, properties = [''a'' \<mapsto> v], tags = {}, updateKind = Upsert\<rparr>"

section \<open>The exporter driving the coordinator\<close>














section \<open>Properties of the facade\<close>

subsection \<open>Auxiliary facts\<close>

lemma newSignalFxExporter_unbound:
  assumes "newSignalFxExporter d cfgp createSettings = Inr se"
  shows "cfgp = Some (config se) \<and> hostMetadataSyncer se = None \<and> pushMetricsData se = None \<and>
         pushMetadata se = None \<and> pushLogsData se = None \<and> converter se \<noteq> None"
  using assms
  by (auto simp: newSignalFxExporter_def Let_def split: option.splits sum.splits)

lemma ex_exporter_constructed:
  "newSignalFxExporter ex_deps (Some cfg) \<lparr>cs_Logger = 50, cs_TelemetrySettings = 51\<rparr>
     = Inr (ex_exporter cfg)"
  by (simp add: newSignalFxExporter_def ex_deps_def ex_exporter_def)

lemma buildHeaders_snd:
  "snd (buildHeaders t cfg) = cfg\<lparr>HTTPClientSettings := (HTTPClientSettings cfg)\<lparr>Headers := None\<rparr>\<rparr>"
  by (simp add: buildHeaders_def Let_def)

lemma createClient_effect:
  assumes "createClient d se host s = (r, se', s')"
  shows "calls s' = calls s @ [CallToClient (HTTPClientSettings (config se')) host]"
    and "Headers (HTTPClientSettings (config se')) = Headers (HTTPClientSettings (config se))"
    and "SyncHostMetadata (config se') = SyncHostMetadata (config se)"
    and "APITLSSettings (config se') = APITLSSettings (config se)"
    and "hostMetadataSyncer se' = hostMetadataSyncer se"
    and "converter se' = converter se"
    and "pushMetricsData se' = pushMetricsData se"
    and "logger se' = logger se"
  using assms
  by (auto simp: createClient_def Let_def split: prod.splits if_splits)


lemma start_success:
  assumes "start t d se host s = Inr (None, se', s')"
  shows "\<exists>options hcs tls conv dim w w'.
      getOptionsFromConfig d (config se) = Inr options \<and>
      converter se = Some conv \<and>
      Headers hcs = None \<and>
      NewDimensionClient d \<lparr>Token = token options, APIURL = apiURL options, APITLSConfig = tls,
          LogUpdates = logDimUpdate options, Logger = logger se, SendDelay = 10,
          PropertiesMaxBuffered = 10000, MetricsConverter = conv\<rparr> w = (dim, w') \<and>
      calls s' = calls s @
        [CallToClient hcs host,
         CallLoadTLSConfig (APITLSSettings (config se)),
         CallNewDimensionClient \<lparr>Token = token options, APIURL = apiURL options, APITLSConfig = tls,
          LogUpdates = logDimUpdate options, Logger = logger se, SendDelay = 10,
          PropertiesMaxBuffered = 10000, MetricsConverter = conv\<rparr>,
         CallDimensionClientStart dim] @
        (if SyncHostMetadata (config se) then [CallNewSyncer dim] else []) \<and>
      (SyncHostMetadata (config se) \<or> hostMetadataSyncer se' = None)"
proof -
  obtain options where o: "getOptionsFromConfig d (config se) = Inr options"
    using assms by (cases "getOptionsFromConfig d (config se)") (simp_all add: start_def)
  obtain headers cfg where bh: "buildHeaders t (config se) = (headers, cfg)"
    by force
  have cfg: "cfg = (config se)\<lparr>HTTPClientSettings := (HTTPClientSettings (config se))\<lparr>Headers := None\<rparr>\<rparr>"
    using buildHeaders_snd [of t "config se"] bh by simp
  obtain cl se1 s1 where cc: "createClient d (se\<lparr>config := cfg\<rparr>) host s = (cl, se1, s1)"
    by (metis prod_cases3)
  note ce = createClient_effect [OF cc]
  obtain client where cl: "cl = Inr client"
    using assms o bh cc by (cases cl) (simp_all add: start_def)
  obtain tlsr w1 where lt: "LoadTLSConfig d (APITLSSettings (config se1)) (world s1) = (tlsr, w1)"
    by force
  obtain tls where tls: "tlsr = Inr tls"
    using assms o bh cc cl lt by (cases tlsr) (simp_all add: start_def)
  obtain conv where conv: "converter se1 = Some conv"
    using assms o bh cc cl lt tls by (cases "converter se1") (simp_all add: start_def)
  let ?opts = "\<lparr>Token = token options, APIURL = apiURL options, APITLSConfig = tls,
          LogUpdates = logDimUpdate options, Logger = logger se, SendDelay = 10,
          PropertiesMaxBuffered = 10000, MetricsConverter = conv\<rparr>"
  obtain dim w2 where nd: "NewDimensionClient d ?opts w1 = (dim, w2)"
    by force
  have "calls s' = calls s @
        [CallToClient (HTTPClientSettings (config se1)) host,
         CallLoadTLSConfig (APITLSSettings (config se)),
         CallNewDimensionClient ?opts,
         CallDimensionClientStart dim] @
        (if SyncHostMetadata (config se) then [CallNewSyncer dim] else [])"
    and "SyncHostMetadata (config se) \<or> hostMetadataSyncer se' = None"
    using assms o bh cc cl lt tls conv nd ce cfg
    by (auto simp: start_def Let_def split: prod.splits if_splits)
  moreover have "Headers (HTTPClientSettings (config se1)) = None"
    using ce(2) cfg by simp
  moreover have "converter se = Some conv"
    using ce(6) conv by simp
  ultimately show ?thesis
    using o nd by blast
qed

lemma start_error_frame:
  assumes "start t d se host s = Inr (Some e, se', s')"
  shows "hostMetadataSyncer se' = hostMetadataSyncer se \<and>
         pushMetricsData se' = pushMetricsData se \<and>
         (\<exists>cs. calls s' = calls s @ cs \<and>
            (\<forall>c \<in> set cs. (\<exists>hcs h. c = CallToClient hcs h \<and> Headers hcs = None) \<or>
                            (\<exists>r. c = CallLoadTLSConfig r)))"
proof (cases "getOptionsFromConfig d (config se)")
  case (Inl e')
  then show ?thesis using assms by (simp add: start_def)
next
  case (Inr options)
  obtain headers cfg where bh: "buildHeaders t (config se) = (headers, cfg)"
    by force
  have cfg: "cfg = (config se)\<lparr>HTTPClientSettings := (HTTPClientSettings (config se))\<lparr>Headers := None\<rparr>\<rparr>"
    using buildHeaders_snd [of t "config se"] bh by simp
  obtain cl se1 s1 where cc: "createClient d (se\<lparr>config := cfg\<rparr>) host s = (cl, se1, s1)"
    by (metis prod_cases3)
  note ce = createClient_effect [OF cc]
  have h: "Headers (HTTPClientSettings (config se1)) = None"
    using ce(2) cfg by simp
  show ?thesis
    using assms Inr bh cc ce h
    by (auto simp: start_def Let_def split: sum.splits prod.splits option.splits if_splits)
qed

lemma rangeHeaders_other:
  "k \<notin> fst ` set kvs \<Longrightarrow> rangeHeaders kvs h k = h k"
  by (induction kvs arbitrary: h) auto

lemma rangeHeaders_entry:
  "distinct (map fst kvs) \<Longrightarrow> (k, v) \<in> set kvs \<Longrightarrow> rangeHeaders kvs h k = Some v"
proof (induction kvs arbitrary: h)
  case Nil
  then show ?case by simp
next
  case (Cons kv kvs)
  obtain k' v' where kv: "kv = (k', v')" by (cases kv)
  show ?case
  proof (cases "(k, v) \<in> set kvs")
    case True
    then show ?thesis using Cons kv by simp
  next
    case False
    then have "k' = k" "v' = v" using Cons.prems kv by auto
    moreover have "k \<notin> fst ` set kvs" using Cons.prems kv \<open>k' = k\<close> by auto
    ultimately show ?thesis using kv by (simp add: rangeHeaders_other)
  qed
qed

lemma buildHeaders_fst:
  "fst (buildHeaders t cfg) =
     rangeHeaders (customHeaders cfg)
       (if AccessToken cfg \<noteq> ''''
        then [''Connection'' \<mapsto> ''keep-alive'', ''Content-Type'' \<mapsto> ''application/x-protobuf'',
              ''User-Agent'' \<mapsto> ''OpenTelemetry-Collector SignalFx Exporter/v0.0.1'',
              t \<mapsto> AccessToken cfg]
        else [''Connection'' \<mapsto> ''keep-alive'', ''Content-Type'' \<mapsto> ''application/x-protobuf'',
              ''User-Agent'' \<mapsto> ''OpenTelemetry-Collector SignalFx Exporter/v0.0.1''])"
  by (simp add: buildHeaders_def customHeaders_def Let_def split: option.splits)

lemma buildHeaders_custom_entry:
  assumes "distinct (map fst (customHeaders cfg))" and "(k, v) \<in> set (customHeaders cfg)"
  shows "fst (buildHeaders t cfg) k = Some v"
  using assms by (simp only: buildHeaders_fst rangeHeaders_entry)

lemma startLogs_toClient:
  assumes "startLogs t d se host s = (err, se', s')"
  shows "\<exists>cs. calls s' = calls s @ cs \<and>
            (\<forall>c \<in> set cs. \<exists>hcs h. c = CallToClient hcs h \<and> Headers hcs = None)"
proof (cases "getOptionsFromConfig d (config se)")
  case (Inl e')
  then show ?thesis using assms by (simp add: startLogs_def)
next
  case (Inr options)
  obtain headers cfg where bh: "buildHeaders t (config se) = (headers, cfg)"
    by force
  have cfg: "cfg = (config se)\<lparr>HTTPClientSettings := (HTTPClientSettings (config se))\<lparr>Headers := None\<rparr>\<rparr>"
    using buildHeaders_snd [of t "config se"] bh by simp
  obtain cl se1 s1 where cc: "createClient d (se\<lparr>config := cfg\<rparr>) host s = (cl, se1, s1)"
    by (metis prod_cases3)
  note ce = createClient_effect [OF cc]
  have h: "Headers (HTTPClientSettings (config se1)) = None"
    using ce(2) cfg by simp
  show ?thesis
    using assms Inr bh cc ce h
    by (auto simp: startLogs_def Let_def split: sum.splits prod.splits option.splits if_splits)
qed


lemmas ex_defs = ex_config_def ex_config_sync_def ex_options_def ex_push_def ex_deps_def
  ex_exporter_def ex_state_def

lemma ex_start:
  "\<exists>se'. start ''X-Sf-Token'' ex_deps (ex_exporter ex_config) 9 ex_state =
     Inr (None, se',
       \<lparr>world = 0,
        calls = [CallToClient \<lparr>Headers = None, TLSSetting = 1, MaxIdleConns = Some 20,
                   MaxIdleConnsPerHost = Some 5, IdleConnTimeout = Some 30000000000\<rparr> 9,
                 CallLoadTLSConfig 2,
                 CallNewDimensionClient \<lparr>Token = ''secret'', APIURL = 22, APITLSConfig = 42,
                   LogUpdates = False, Logger = 50, SendDelay = 10,
                   PropertiesMaxBuffered = 10000, MetricsConverter = 40\<rparr>,
                 CallDimensionClientStart 43]\<rparr>)"
  by (simp add: start_def buildHeaders_def createClient_def ex_defs Let_def Second_def)

lemma ex_startLogs:
  "\<exists>se'. startLogs ''X-Sf-Token'' ex_deps (ex_exporter ex_config) 9 ex_state =
     (None, se',
       \<lparr>world = 0,
        calls = [CallToClient \<lparr>Headers = None, TLSSetting = 1, MaxIdleConns = Some 20,
                   MaxIdleConnsPerHost = Some 5, IdleConnTimeout = Some 30000000000\<rparr> 9]\<rparr>)"
  by (simp add: startLogs_def buildHeaders_def createClient_def ex_defs Let_def Second_def)

lemma startCalls_toClient:
  assumes "CallToClient hcs h \<in> set (startCalls t d se host s)"
  shows "Headers hcs = None"
proof (cases "start t d se host s")
  case (Inl p)
  then show ?thesis using assms by (simp add: startCalls_def)
next
  case (Inr r)
  obtain err se' s' where r: "r = (err, se', s')" by (cases r)
  have st: "start t d se host s = Inr (err, se', s')" using Inr r by simp
  have mem: "CallToClient hcs h \<in> set (callsSince s s')"
    using assms st by (simp add: startCalls_def)
  show ?thesis
  proof (cases err)
    case None
    then show ?thesis
      using start_success [of t d se host s se' s'] st mem
      by (auto simp: callsSince_def split: if_splits)
  next
    case (Some e)
    then show ?thesis
      using start_error_frame [of t d se host s e se' s'] st mem
      by (auto simp: callsSince_def)
  qed
qed

lemma startLogsCalls_toClient:
  assumes "CallToClient hcs h \<in> set (startLogsCalls t d se host s)"
  shows "Headers hcs = None"
proof -
  obtain err se' s' where st: "startLogs t d se host s = (err, se', s')"
    by (metis prod_cases3)
  have mem: "CallToClient hcs h \<in> set (callsSince s s')"
    using assms st by (simp add: startLogsCalls_def)
  show ?thesis
    using startLogs_toClient [OF st] mem by (auto simp: callsSince_def)
qed

lemma ex_startCalls:
  "startCalls ''X-Sf-Token'' ex_deps (ex_exporter ex_config) 9 ex_state =
     [CallToClient \<lparr>Headers = None, TLSSetting = 1, MaxIdleConns = Some 20,
        MaxIdleConnsPerHost = Some 5, IdleConnTimeout = Some 30000000000\<rparr> 9,
      CallLoadTLSConfig 2,
      CallNewDimensionClient \<lparr>Token = ''secret'', APIURL = 22, APITLSConfig = 42,
        LogUpdates = False, Logger = 50, SendDelay = 10,
        PropertiesMaxBuffered = 10000, MetricsConverter = 40\<rparr>,
      CallDimensionClientStart 43]"
  by (simp add: startCalls_def callsSince_def start_def buildHeaders_def createClient_def
      ex_defs Let_def Second_def)

lemma ex_startLogsCalls:
  "startLogsCalls ''X-Sf-Token'' ex_deps (ex_exporter ex_config) 9 ex_state =
     [CallToClient \<lparr>Headers = None, TLSSetting = 1, MaxIdleConns = Some 20,
        MaxIdleConnsPerHost = Some 5, IdleConnTimeout = Some 30000000000\<rparr> 9]"
  by (simp add: startLogsCalls_def callsSince_def startLogs_def buildHeaders_def createClient_def
      ex_defs Let_def Second_def)

lemma pushMetrics_without_syncer:
  assumes "hostMetadataSyncer se = None"
      and "pushMetrics d se ctx md s = Inr (r, s')"
  shows "\<exists>push. pushMetricsData se = Some push \<and>
           r = snd (fst (push ctx md (world s))) \<and>
           s' = \<lparr>world = snd (push ctx md (world s)), calls = calls s @ [CallPushMetricsData md]\<rparr>"
  using assms
  by (auto simp: pushMetrics_def Let_def split: option.splits prod.splits)

lemma start_syncer_unset:
  assumes "\<not> SyncHostMetadata (config se)"
      and "start t d se host s = Inr (err, se', s')"
      and "err = None \<or> hostMetadataSyncer se = None"
  shows "hostMetadataSyncer se' = None"
    and "CallNewSyncer dim \<notin> set (callsSince s s')"
proof -
  show "hostMetadataSyncer se' = None"
  proof (cases err)
    case None
    then show ?thesis
      using start_success [of t d se host s se' s'] assms(1,2) by auto
  next
    case (Some e)
    then show ?thesis
      using start_error_frame [of t d se host s e se' s'] assms(2,3) by auto
  qed
  show "CallNewSyncer dim \<notin> set (callsSince s s')"
  proof (cases err)
    case None
    then show ?thesis
      using start_success [of t d se host s se' s'] assms(1,2)
      by (auto simp: callsSince_def)
  next
    case (Some e)
    then show ?thesis
      using start_error_frame [of t d se host s e se' s'] assms(2)
      by (auto simp: callsSince_def)
  qed
qed




subsection \<open>\<open>pushMetrics\<close>: dispatch, then the host-metadata sync\<close>



text \<open>
  Claim C2. When the dispatch returns a non-nil error, \<open>pushMetrics\<close> makes no call to
  \<open>Sync\<close>: the dispatch is its only call and the world is as the dispatch left it. When
  \<open>Sync\<close> is called, the dispatch has returned a nil error before, \<open>Sync\<close> runs on the
  world the dispatch left, and the result of the push is still the dispatch error.
\<close>

theorem sync_only_after_successful_dispatch:
  assumes "pushMetricsData se = Some push"
      and "push ctx md (world s) = ((dropped, err), w)"
      and "pushMetrics d se ctx md s = Inr (r, s')"
  shows "r = err \<and>
         (err \<noteq> None \<longrightarrow> calls s' = calls s @ [CallPushMetricsData md] \<and> world s' = w) \<and>
         (\<forall>syncer m. CallSync syncer m \<in> set (callsSince s s') \<longrightarrow>
             err = None \<and> m = md \<and>
             callsSince s s' = [CallPushMetricsData md, CallSync syncer md] \<and>
             world s' = Sync d syncer md w)"
  using assms by (auto simp: pushMetrics_def callsSince_def Let_def split: if_splits)

theorem sync_only_after_successful_dispatch_witness:
  "pushMetrics ex_deps (ex_exporter ex_config\<lparr>pushMetricsData := Some (ex_push 3 (Some (ErrorNew ''HTTP 503''))),
                                               hostMetadataSyncer := Some 44\<rparr>) 0 [1, 2, 3] ex_state
     = Inr (Some (ErrorNew ''HTTP 503''), \<lparr>world = 1, calls = [CallPushMetricsData [1, 2, 3]]\<rparr>)"
proof -
  let ?push = "ex_push 3 (Some (ErrorNew ''HTTP 503'')) :: nat \<Rightarrow> nat list \<Rightarrow> nat \<Rightarrow> (int \<times> error option) \<times> nat"
  let ?se = "ex_exporter ex_config\<lparr>pushMetricsData := Some ?push, hostMetadataSyncer := Some 44\<rparr>"
  let ?s' = "\<lparr>world = 1, calls = [CallPushMetricsData [1, 2, 3]]\<rparr> :: (nat list, string list, nat, unit) state"
  have h1: "pushMetricsData ?se = Some ?push"
    by simp
  have h2: "?push 0 [1, 2, 3] (world ex_state) = ((3, Some (ErrorNew ''HTTP 503'')), 1)"
    by (simp add: ex_push_def ex_state_def)
  have h3: "pushMetrics ex_deps ?se 0 [1, 2, 3] ex_state = Inr (Some (ErrorNew ''HTTP 503''), ?s')"
    by (simp add: pushMetrics_def ex_defs Let_def)
  from sync_only_after_successful_dispatch [OF h1 h2 h3] show ?thesis
    using h3 by simp
qed

subsection \<open>The dropped count\<close>

text \<open>
  Claim C3 says that both push functions report the dropped count of the inner push to
  their caller. They return an \<open>error\<close> only: two inner pushes that drop seven records
  and none, with a nil error, give the same result.
\<close>

theorem dropped_count_not_reported_counterexample:
  "fst (fst (ex_push 7 None 0 [1, 2, 3 :: nat] 0)) \<noteq> fst (fst (ex_push 0 None 0 [1, 2, 3 :: nat] 0)) \<and>
   pushMetrics ex_deps (ex_exporter ex_config\<lparr>pushMetricsData := Some (ex_push 7 None)\<rparr>) 0 [1, 2, 3] ex_state
     = pushMetrics ex_deps (ex_exporter ex_config\<lparr>pushMetricsData := Some (ex_push 0 None)\<rparr>) 0 [1, 2, 3] ex_state \<and>
   pushLogs (ex_exporter ex_config\<lparr>pushLogsData := Some (ex_push 7 None)\<rparr>) 0 [''event''] ex_state
     = pushLogs (ex_exporter ex_config\<lparr>pushLogsData := Some (ex_push 0 None)\<rparr>) 0 [''event''] ex_state"
  by (simp add: pushMetrics_def pushLogs_def ex_defs Let_def)

text \<open>
  Claim C3, amended. What \<open>pushMetrics\<close> and \<open>pushLogs\<close> return does not depend on the
  dropped count of the inner push: replacing the count by any other value changes
  nothing.
\<close>

theorem push_result_ignores_dropped_count:
  "pushMetrics d (se\<lparr>pushMetricsData := Some (\<lambda>c m w. ((n, snd (fst (push c m w))), snd (push c m w)))\<rparr>) ctx md s
     = pushMetrics d (se\<lparr>pushMetricsData := Some push\<rparr>) ctx md s \<and>
   pushLogs (se\<lparr>pushLogsData := Some (\<lambda>c l w. ((n, snd (fst (pushl c l w))), snd (pushl c l w)))\<rparr>) ctx ld s
     = pushLogs (se\<lparr>pushLogsData := Some pushl\<rparr>) ctx ld s"
  by (simp add: pushMetrics_def pushLogs_def Let_def split: prod.splits)

subsection \<open>\<open>buildHeaders\<close>: the content encoding\<close>


subsection \<open>\<open>pushLogs\<close>\<close>

text \<open>
  Claim C4. For every logs batch, \<open>pushLogs\<close> makes one call, the inner push (encode and
  dispatch): the world afterwards is the one the dispatch left, no \<open>Sync\<close> call is
  recorded, the result does not depend on the syncer or on \<open>pushMetadata\<close>, and the
  error returned is the dispatch error. The exporter has been started by \<open>startLogs\<close>,
  so that \<open>pushLogsData\<close> is bound.
\<close>

theorem pushLogs_dispatch_only:
  assumes "pushLogsData se = Some push"
      and "push ctx ld (world s) = ((dropped, err), w)"
  shows "pushLogs se ctx ld s = Inr (err, \<lparr>world = w, calls = calls s @ [CallPushLogsData ld]\<rparr>) \<and>
         (\<forall>hms pm. pushLogs (se\<lparr>hostMetadataSyncer := hms, pushMetadata := pm\<rparr>) ctx ld s
                     = pushLogs se ctx ld s)"
  using assms by (simp add: pushLogs_def)

theorem pushLogs_dispatch_only_witness:
  "pushLogs (ex_exporter ex_config\<lparr>pushLogsData := Some (ex_push 0 None),
                                    hostMetadataSyncer := Some 44\<rparr>) 0 [''event''] ex_state
     = Inr (None, \<lparr>world = 1, calls = [CallPushLogsData [''event'']]\<rparr>)"
proof -
  let ?se = "ex_exporter ex_config\<lparr>pushLogsData := Some (ex_push 0 None),
                                   hostMetadataSyncer := Some 44\<rparr>"
  have h1: "pushLogsData ?se = Some (ex_push 0 None)"
    by simp
  have h2: "ex_push 0 None 0 [''event''] (world ex_state) = ((0, None), 1)"
    by (simp add: ex_push_def ex_state_def)
  have c: "calls ex_state @ [CallPushLogsData [''event'']] = [CallPushLogsData [''event'']]"
    by (simp add: ex_state_def)
  have "pushLogs ?se 0 [''event''] ex_state =
          Inr (None, \<lparr>world = 1, calls = calls ex_state @ [CallPushLogsData [''event'']]\<rparr>)"
    using pushLogs_dispatch_only [where se = ?se and push = "ex_push 0 None" and ctx = 0
        and ld = "[''event'']" and s = ex_state and dropped = 0 and err = None and w = 1]
      h1 h2 by blast
  then show ?thesis
    unfolding c .
qed

subsection \<open>\<open>buildHeaders\<close> writes to the configuration\<close>

text \<open>
  Claim C10. After \<open>buildHeaders\<close> the configuration is the one it was given with
  \<open>HTTPClientSettings.Headers\<close> set to nil, for every configuration: every other field,
  modelled or not, is unchanged. The configured headers are in the returned map. The
  HTTP client that \<open>start\<close> and \<open>startLogs\<close> create afterwards is built from settings
  whose \<open>Headers\<close> are nil.
\<close>

theorem buildHeaders_clears_config_headers:
  "snd (buildHeaders t cfg) = cfg\<lparr>HTTPClientSettings := (HTTPClientSettings cfg)\<lparr>Headers := None\<rparr>\<rparr> \<and>
   Headers (HTTPClientSettings (snd (buildHeaders t cfg))) = None \<and>
   (distinct (map fst (customHeaders cfg)) \<longrightarrow>
      (\<forall>k v. (k, v) \<in> set (customHeaders cfg) \<longrightarrow> fst (buildHeaders t cfg) k = Some v)) \<and>
   (\<forall>hcs h. CallToClient hcs h \<in> set (startCalls t d se host s) \<longrightarrow> Headers hcs = None) \<and>
   (\<forall>hcs h. CallToClient hcs h \<in> set (startLogsCalls t dl sel hostl sl) \<longrightarrow> Headers hcs = None)"
proof (intro conjI)
  show 1: "snd (buildHeaders t cfg) = cfg\<lparr>HTTPClientSettings := (HTTPClientSettings cfg)\<lparr>Headers := None\<rparr>\<rparr>"
    by (rule buildHeaders_snd)
  show "Headers (HTTPClientSettings (snd (buildHeaders t cfg))) = None"
    unfolding 1 by simp
  show "distinct (map fst (customHeaders cfg)) \<longrightarrow>
      (\<forall>k v. (k, v) \<in> set (customHeaders cfg) \<longrightarrow> fst (buildHeaders t cfg) k = Some v)"
    using buildHeaders_custom_entry by blast
  show "\<forall>hcs h. CallToClient hcs h \<in> set (startCalls t d se host s) \<longrightarrow> Headers hcs = None"
    using startCalls_toClient by blast
  show "\<forall>hcs h. CallToClient hcs h \<in> set (startLogsCalls t dl sel hostl sl) \<longrightarrow> Headers hcs = None"
    using startLogsCalls_toClient by blast
qed

theorem buildHeaders_clears_config_headers_witness:
  "distinct (map fst (customHeaders ex_config)) \<and>
   (''X-Custom'', ''1'') \<in> set (customHeaders ex_config) \<and>
   fst (buildHeaders ''X-Sf-Token'' ex_config) ''X-Custom'' = Some ''1'' \<and>
   Headers (HTTPClientSettings (snd (buildHeaders ''X-Sf-Token'' ex_config))) = None \<and>
   (\<exists>hcs. CallToClient hcs 9 \<in> set (startCalls ''X-Sf-Token'' ex_deps (ex_exporter ex_config) 9 ex_state)
       \<and> Headers hcs = None) \<and>
   (\<exists>hcs. CallToClient hcs 9 \<in> set (startLogsCalls ''X-Sf-Token'' ex_deps (ex_exporter ex_config) 9 ex_state)
       \<and> Headers hcs = None)"
proof -
  let ?hcs = "\<lparr>Headers = None, TLSSetting = 1, MaxIdleConns = Some 20,
        MaxIdleConnsPerHost = Some 5, IdleConnTimeout = Some 30000000000\<rparr>"
  have d: "distinct (map fst (customHeaders ex_config))"
    and m: "(''X-Custom'', ''1'') \<in> set (customHeaders ex_config)"
    by (simp_all add: customHeaders_def ex_config_def)
  have c: "CallToClient ?hcs 9 \<in> set (startCalls ''X-Sf-Token'' ex_deps (ex_exporter ex_config) 9 ex_state)"
    unfolding ex_startCalls by simp
  have cl: "CallToClient ?hcs 9 \<in> set (startLogsCalls ''X-Sf-Token'' ex_deps (ex_exporter ex_config) 9 ex_state)"
    unfolding ex_startLogsCalls by simp
  note inst = buildHeaders_clears_config_headers [where t = "''X-Sf-Token''" and cfg = ex_config
      and d = ex_deps and se = "ex_exporter ex_config" and host = 9 and s = ex_state
      and dl = ex_deps and sel = "ex_exporter ex_config" and hostl = 9 and sl = ex_state]
  have 2: "Headers (HTTPClientSettings (snd (buildHeaders ''X-Sf-Token'' ex_config))) = None"
    using inst by (elim conjE)
  have "\<forall>k v. (k, v) \<in> set (customHeaders ex_config) \<longrightarrow>
          fst (buildHeaders ''X-Sf-Token'' ex_config) k = Some v"
    using inst d by (elim conjE) (erule mp)
  then have 3: "fst (buildHeaders ''X-Sf-Token'' ex_config) ''X-Custom'' = Some ''1''"
    using m by (elim allE) (erule mp)
  have "\<forall>hcs h. CallToClient hcs h \<in> set (startCalls ''X-Sf-Token'' ex_deps (ex_exporter ex_config) 9 ex_state)
          \<longrightarrow> Headers hcs = None"
    using inst by (elim conjE)
  then have "Headers ?hcs = None"
    using c by (elim allE) (erule mp)
  with c have 4: "\<exists>hcs. CallToClient hcs 9 \<in> set (startCalls ''X-Sf-Token'' ex_deps (ex_exporter ex_config) 9 ex_state)
       \<and> Headers hcs = None"
    by (intro exI [of _ ?hcs] conjI)
  have "\<forall>hcs h. CallToClient hcs h \<in> set (startLogsCalls ''X-Sf-Token'' ex_deps (ex_exporter ex_config) 9 ex_state)
          \<longrightarrow> Headers hcs = None"
    using inst by (elim conjE)
  then have "Headers ?hcs = None"
    using cl by (elim allE) (erule mp)
  with cl have 5: "\<exists>hcs. CallToClient hcs 9 \<in> set (startLogsCalls ''X-Sf-Token'' ex_deps (ex_exporter ex_config) 9 ex_state)
       \<and> Headers hcs = None"
    by (intro exI [of _ ?hcs] conjI)
  show ?thesis
    using d m 3 2 4 5 by (intro conjI)
qed

subsection \<open>\<open>start\<close>: the host-metadata syncer and the dimension client\<close>

text \<open>
  Claim C9. When \<open>SyncHostMetadata\<close> is not set, \<open>start\<close> constructs no syncer and leaves
  \<open>hostMetadataSyncer\<close> nil: a successful \<open>start\<close> assigns nil, and a failed one leaves
  the nil the constructor put there. Then every \<open>pushMetrics\<close> that returns, with any
  collaborators and whatever the dispatch returns, records no \<open>Sync\<close> call and leaves
  the world as the dispatch left it.
\<close>

theorem no_sync_without_SyncHostMetadata:
  assumes "\<not> SyncHostMetadata (config se)"
      and "start t d se host s = Inr (err, se', s')"
      and "err = None \<or> hostMetadataSyncer se = None"
  shows "hostMetadataSyncer se' = None \<and>
         (\<forall>dim. CallNewSyncer dim \<notin> set (callsSince s s')) \<and>
         (\<forall>d' ctx md s1 r s2. pushMetrics d' se' ctx md s1 = Inr (r, s2) \<longrightarrow>
            (\<forall>syncer m. CallSync syncer m \<notin> set (callsSince s1 s2)) \<and>
            (\<exists>push. pushMetricsData se' = Some push \<and>
               r = snd (fst (push ctx md (world s1))) \<and>
               world s2 = snd (push ctx md (world s1))))"
proof -
  have n: "hostMetadataSyncer se' = None"
    using assms by (rule start_syncer_unset(1))
  have c: "\<forall>dim. CallNewSyncer dim \<notin> set (callsSince s s')"
    using start_syncer_unset(2) [OF assms] by blast
  have p: "(\<forall>syncer m. CallSync syncer m \<notin> set (callsSince s1 s2)) \<and>
            (\<exists>push. pushMetricsData se' = Some push \<and>
               r = snd (fst (push ctx md (world s1))) \<and>
               world s2 = snd (push ctx md (world s1)))"
    if "pushMetrics d' se' ctx md s1 = Inr (r, s2)" for d' ctx md s1 r s2
    using pushMetrics_without_syncer [OF n that] by (auto simp: callsSince_def)
  show ?thesis using n c p by blast
qed

theorem no_sync_without_SyncHostMetadata_witness:
  "\<not> SyncHostMetadata (config (ex_exporter ex_config)) \<and>
   (\<exists>se' s'. start ''X-Sf-Token'' ex_deps (ex_exporter ex_config) 9 ex_state = Inr (None, se', s') \<and>
      hostMetadataSyncer se' = None)"
proof -
  have f: "\<not> SyncHostMetadata (config (ex_exporter ex_config))"
    by (simp add: ex_exporter_def ex_config_def)
  from ex_start obtain se' s' where
    st: "start ''X-Sf-Token'' ex_deps (ex_exporter ex_config) 9 ex_state = Inr (None, se', s')"
    by blast
  have e: "(None :: error option) = None \<or> hostMetadataSyncer (ex_exporter ex_config) = None"
    by simp
  have "hostMetadataSyncer se' = None"
    using no_sync_without_SyncHostMetadata [where se = "ex_exporter ex_config"
        and t = "''X-Sf-Token''" and d = ex_deps and host = 9 and s = ex_state
        and err = None and se' = se' and s' = s', OF f st e]
    by (elim conjE)
  with f st show ?thesis by blast
qed




section \<open>Properties of the coordinator\<close>

subsection \<open>Auxiliary facts\<close>

lemma coalesceInto_keys:
  "map fst (coalesceInto u ps) =
     (if resourceKey u \<in> set (map fst ps) then map fst ps else map fst ps @ [resourceKey u])"
  by (induction ps) (fastforce simp: image_iff)+

lemma coalesceInto_key_set:
  "fst ` set (coalesceInto u ps) = insert (resourceKey u) (fst ` set ps)"
proof -
  have "set (map fst (coalesceInto u ps)) = insert (resourceKey u) (set (map fst ps))"
    unfolding coalesceInto_keys by auto
  then show ?thesis by simp
qed

lemma coalesceInto_length:
  "length (coalesceInto u ps) =
     (if resourceKey u \<in> set (map fst ps) then length ps else Suc (length ps))"
  using coalesceInto_keys [of u ps] by (metis length_append_singleton length_map)

lemma coalesceInto_distinct:
  "distinct (map fst ps) \<Longrightarrow> distinct (map fst (coalesceInto u ps))"
  by (simp add: coalesceInto_keys)

lemma enqueue_bounded:
  "pendingBounded c \<Longrightarrow> pendingBounded (snd (enqueue c u)) \<and> capacity (snd (enqueue c u)) = capacity c"
  by (auto simp: pendingBounded_def enqueue_def coalesceInto_length coalesceInto_distinct)

lemma step_bounded:
  "pendingBounded c \<Longrightarrow> pendingBounded (coordinatorStep c op) \<and> capacity (coordinatorStep c op) = capacity c"
proof (cases op)
  case (OpEnqueue u)
  assume "pendingBounded c"
  then show ?thesis using enqueue_bounded [of c u] OpEnqueue by simp
qed (auto simp: pendingBounded_def coordinatorStart_def coordinatorStop_def flushTick_def flush_def)

lemma runOps_bounded:
  "pendingBounded c \<Longrightarrow> pendingBounded (runOps c ops) \<and> capacity (runOps c ops) = capacity c"
  unfolding runOps_def
proof (induction ops arbitrary: c)
  case Nil
  then show ?case by simp
next
  case (Cons op ops)
  from step_bounded [OF Cons.prems, of op]
  have b: "pendingBounded (coordinatorStep c op)" and k: "capacity (coordinatorStep c op) = capacity c"
    by simp_all
  from Cons.IH [OF b] k show ?case by simp
qed

lemma enqueue_keeps_keys:
  "set (map fst (pending c)) \<subseteq> set (map fst (pending (snd (enqueue c u))))"
  by (auto simp: enqueue_def coalesceInto_key_set)

lemma ex_runOps:
  "runOps (newCoordinator 2 10000)
     [OpStart, OpEnqueue (ex_update ''h1'' ''1''), OpEnqueue (ex_update ''h2'' ''1'')] =
   \<lparr>pending = [(''h1'', ex_update ''h1'' ''1''), (''h2'', ex_update ''h2'' ''1'')],
    capacity = 2, flushIntervalMs = 10000, rejectedUpdates = 0,
    running = True, stopped = False, flushed = [], failedFlushes = 0\<rparr>"
  by (simp add: runOps_def newCoordinator_def coordinatorStart_def enqueue_def ex_update_def)

subsection \<open>The bound on the pending updates\<close>

text \<open>
  Claim C8. In the coordinator as the specification describes it, after any sequence of
  operations on a new coordinator the pending mapping has at most \<open>capacity\<close> entries,
  with distinct keys. No enqueue removes a pending key. When an update with a new key
  arrives at capacity, enqueue returns false and adds one to the counter of rejected
  updates, the pending entries are unchanged, and the next flush of the running loop
  hands over exactly these entries.
\<close>

theorem pending_never_exceeds_capacity:
  "length (pending (runOps (newCoordinator cap interval) ops)) \<le> cap \<and>
   distinct (map fst (pending (runOps (newCoordinator cap interval) ops))) \<and>
   set (map fst (pending c)) \<subseteq> set (map fst (pending (snd (enqueue c u)))) \<and>
   (\<not> stopped c \<and> resourceKey u \<notin> set (map fst (pending c)) \<and> capacity c \<le> length (pending c) \<longrightarrow>
      enqueue c u = (False, c\<lparr>rejectedUpdates := Suc (rejectedUpdates c)\<rparr>) \<and>
      pending (snd (enqueue c u)) = pending c \<and>
      (running c \<longrightarrow>
         flushed (flushTick ok (snd (enqueue c u))) = flushed c @ [map snd (pending c)]))"
proof -
  have "pendingBounded (newCoordinator cap interval)"
    by (simp add: pendingBounded_def newCoordinator_def)
  from runOps_bounded [OF this, of ops]
  have "length (pending (runOps (newCoordinator cap interval) ops)) \<le> cap"
    and "distinct (map fst (pending (runOps (newCoordinator cap interval) ops)))"
    by (simp_all add: pendingBounded_def newCoordinator_def)
  moreover have "\<not> stopped c \<and> resourceKey u \<notin> set (map fst (pending c)) \<and>
      capacity c \<le> length (pending c) \<longrightarrow>
      enqueue c u = (False, c\<lparr>rejectedUpdates := Suc (rejectedUpdates c)\<rparr>) \<and>
      pending (snd (enqueue c u)) = pending c \<and>
      (running c \<longrightarrow>
         flushed (flushTick ok (snd (enqueue c u))) = flushed c @ [map snd (pending c)])"
    by (simp add: enqueue_def flushTick_def flush_def)
  ultimately show ?thesis
    using enqueue_keeps_keys [of c u] by blast
qed

theorem pending_never_exceeds_capacity_witness:
  "\<not> stopped (runOps (newCoordinator 2 10000)
       [OpStart, OpEnqueue (ex_update ''h1'' ''1''), OpEnqueue (ex_update ''h2'' ''1'')]) \<and>
   resourceKey (ex_update ''h3'' ''1'') \<notin> set (map fst (pending (runOps (newCoordinator 2 10000)
       [OpStart, OpEnqueue (ex_update ''h1'' ''1''), OpEnqueue (ex_update ''h2'' ''1'')]))) \<and>
   capacity (runOps (newCoordinator 2 10000)
       [OpStart, OpEnqueue (ex_update ''h1'' ''1''), OpEnqueue (ex_update ''h2'' ''1'')])
     \<le> length (pending (runOps (newCoordinator 2 10000)
       [OpStart, OpEnqueue (ex_update ''h1'' ''1''), OpEnqueue (ex_update ''h2'' ''1'')])) \<and>
   enqueue (runOps (newCoordinator 2 10000)
       [OpStart, OpEnqueue (ex_update ''h1'' ''1''), OpEnqueue (ex_update ''h2'' ''1'')])
     (ex_update ''h3'' ''1'') =
   (False,
    \<lparr>pending = [(''h1'', ex_update ''h1'' ''1''), (''h2'', ex_update ''h2'' ''1'')],
     capacity = 2, flushIntervalMs = 10000, rejectedUpdates = 1,
     running = True, stopped = False, flushed = [], failedFlushes = 0\<rparr>)"
proof -
  let ?c = "runOps (newCoordinator 2 10000)
       [OpStart, OpEnqueue (ex_update ''h1'' ''1''), OpEnqueue (ex_update ''h2'' ''1'')]"
  let ?u = "ex_update ''h3'' ''1''"
  have h: "\<not> stopped ?c \<and> resourceKey ?u \<notin> set (map fst (pending ?c)) \<and>
      capacity ?c \<le> length (pending ?c)"
    unfolding ex_runOps by (simp add: ex_update_def)
  have "\<not> stopped ?c \<and> resourceKey ?u \<notin> set (map fst (pending ?c)) \<and>
      capacity ?c \<le> length (pending ?c) \<longrightarrow>
      enqueue ?c ?u = (False, ?c\<lparr>rejectedUpdates := Suc (rejectedUpdates ?c)\<rparr>) \<and>
      pending (snd (enqueue ?c ?u)) = pending ?c \<and>
      (running ?c \<longrightarrow>
         flushed (flushTick True (snd (enqueue ?c ?u))) = flushed ?c @ [map snd (pending ?c)])"
    using pending_never_exceeds_capacity [where c = ?c and u = ?u and ok = True
        and cap = 2 and interval = 10000 and ops = "[]"]
    by (elim conjE)
  then have "enqueue ?c ?u = (False, ?c\<lparr>rejectedUpdates := Suc (rejectedUpdates ?c)\<rparr>) \<and>
      pending (snd (enqueue ?c ?u)) = pending ?c \<and>
      (running ?c \<longrightarrow>
         flushed (flushTick True (snd (enqueue ?c ?u))) = flushed ?c @ [map snd (pending ?c)])"
    using h by (rule mp)
  then have "enqueue ?c ?u = (False, ?c\<lparr>rejectedUpdates := Suc (rejectedUpdates ?c)\<rparr>)"
    by (elim conjE)
  then have "enqueue ?c ?u =
   (False,
    \<lparr>pending = [(''h1'', ex_update ''h1'' ''1''), (''h2'', ex_update ''h2'' ''1'')],
     capacity = 2, flushIntervalMs = 10000, rejectedUpdates = 1,
     running = True, stopped = False, flushed = [], failedFlushes = 0\<rparr>)"
    unfolding ex_runOps by simp
  with h show ?thesis by (intro conjI) (elim conjE, assumption)+
qed

section \<open>The exporter and the lifecycle of the coordinator\<close>

subsection \<open>Auxiliary facts\<close>























subsection \<open>Start without stop\<close>




end
